theory Spec2Isabelle
  imports Main "HOL-Library.AList"
begin

section \<open>The object store\<close>

text \<open>
  Graph (codigo_a.js, codigo_b.js) refers to GraphVertex and GraphEdge objects by identity,
  mutates them in place (a vertex's incident-edge list, an edge's endpoints) and keeps two
  plain JS objects as registries. The model keeps an explicit store: vertex and edge objects
  live at references, and the Graph's own fields sit next to the two object tables in one
  record that every operation takes and returns.

  A registry is a JS object used as a dictionary: an association list in insertion order,
  one entry per property name. \<open>obj[k] = v\<close> is \<open>AList.update\<close> (overwrite in place, or
  append), \<open>delete obj[k]\<close> is \<open>AList.delete\<close>, \<open>obj[k]\<close> is \<open>map_of\<close> (\<open>None\<close> for
  \<open>undefined\<close>) and \<open>Object.values\<close> is \<open>map snd\<close>. Registry values are objects, hence
  always truthy, so \<open>obj[k] || null\<close> and \<open>if (obj[k])\<close> only test presence. Keys are
  taken to be ordinary names: not names that every JS object inherits (\<open>constructor\<close>,
  \<open>toString\<close>, ...), for which \<open>obj[k]\<close> is defined without an entry, and not
  canonical array indices, which JS enumerates before the other names (no result below
  depends on where a new key is enumerated).

  Weights are JS numbers; they are modelled as integers, so rounding is out of scope.
\<close>

type_synonym key = string
type_synonym edge_key = "key \<times> key"
type_synonym vref = nat
type_synonym eref = nat

record vertex =
  key :: key
  adjacency :: "eref list"

record edge =
  startVertex :: vref
  endVertex :: vref
  weight :: int

record world =
  vobj :: "vref \<Rightarrow> vertex"
  eobj :: "eref \<Rightarrow> edge"
  vertices :: "(key \<times> vref) list"
  edges :: "(edge_key \<times> eref) list"
  isDirected :: bool

text \<open>
  The two \<open>throw new Error(...)\<close> statements are the failures the specification calls
  DuplicateEdgeError and EdgeNotFoundError; TypeError is what JS raises when a property
  of \<open>null\<close> or \<open>undefined\<close> is read or called. An operation that throws leaves the store
  as it was at the throw, and the caller can go on using the graph, so a thrown outcome
  carries that store.
\<close>

datatype error = DuplicateEdgeError | EdgeNotFoundError | TypeError

datatype outcome = Returned world | Thrown error world

fun state_of :: "outcome \<Rightarrow> world" where
  "state_of (Returned w) = w"
| "state_of (Thrown err w) = w"

datatype cell = Infinity | Weight int

type_synonym matrix = "cell list list"


section \<open>The collaborators GraphVertex and GraphEdge\<close>

text \<open>
  Modelled from the spec: the classes GraphVertex and GraphEdge are not part of the
  sources; section 6 of the specification gives the contract Graph relies on.
  \<^item> \<open>vertex.getKey()\<close>: the stable key of the vertex.
  \<^item> \<open>vertex.addEdge(edge)\<close>, \<open>vertex.deleteEdge(edge)\<close>: add the edge to, and drop it
    from, the vertex's own list of incident edges; dropping an absent edge is a no-op.
  \<^item> \<open>vertex.getNeighbors()\<close>: derived from the incident edges, the other endpoint of each.
  \<^item> \<open>vertex.findEdge(v)\<close>: the first incident edge that has \<open>v\<close> as an endpoint, or null.
  \<^item> \<open>edge.getKey()\<close>: a deterministic, direction-sensitive function of the two endpoint
    keys that identifies them; the model takes the ordered pair itself.
  \<^item> \<open>edge.reverse()\<close>: swaps startVertex and endVertex in place.
\<close>

definition vertex_getKey :: "world \<Rightarrow> vref \<Rightarrow> key" where
  "vertex_getKey w v = key (vobj w v)"

definition vertex_addEdge :: "world \<Rightarrow> vref \<Rightarrow> eref \<Rightarrow> world" where
  "vertex_addEdge w v e =
     w\<lparr>vobj := (vobj w)(v := (vobj w v)\<lparr>adjacency := adjacency (vobj w v) @ [e]\<rparr>)\<rparr>"

definition vertex_deleteEdge :: "world \<Rightarrow> vref \<Rightarrow> eref \<Rightarrow> world" where
  "vertex_deleteEdge w v e =
     w\<lparr>vobj := (vobj w)(v := (vobj w v)\<lparr>adjacency := filter (\<lambda>x. x \<noteq> e) (adjacency (vobj w v))\<rparr>)\<rparr>"

definition vertex_getNeighbors :: "world \<Rightarrow> vref \<Rightarrow> vref list" where
  "vertex_getNeighbors w v =
     map (\<lambda>e. if startVertex (eobj w e) = v then endVertex (eobj w e) else startVertex (eobj w e))
       (adjacency (vobj w v))"

definition vertex_findEdge :: "world \<Rightarrow> vref \<Rightarrow> vref \<Rightarrow> eref option" where
  "vertex_findEdge w v n =
     find (\<lambda>e. startVertex (eobj w e) = n \<or> endVertex (eobj w e) = n) (adjacency (vobj w v))"

definition edge_getKey :: "world \<Rightarrow> eref \<Rightarrow> edge_key" where
  "edge_getKey w e =
     (vertex_getKey w (startVertex (eobj w e)), vertex_getKey w (endVertex (eobj w e)))"

definition edge_reverse :: "world \<Rightarrow> eref \<Rightarrow> world" where
  "edge_reverse w e =
     w\<lparr>eobj := (eobj w)(e := (eobj w e)\<lparr>startVertex := endVertex (eobj w e),
                                        endVertex := startVertex (eobj w e)\<rparr>)\<rparr>"


section \<open>Operations the two variants share\<close>

text \<open>
  The constructor, addVertex, getVertexByKey, getAllVertices, getAllEdges, getWeight and
  getVerticesIndices compute the same in codigo_a.js and codigo_b.js (codigo_a's addVertex
  also returns \<open>this\<close>).
\<close>

definition Graph :: "(vref \<Rightarrow> vertex) \<Rightarrow> (eref \<Rightarrow> edge) \<Rightarrow> bool \<Rightarrow> world" where
  "Graph vs es directed =
     \<lparr>vobj = vs, eobj = es, vertices = [], edges = [], isDirected = directed\<rparr>"

definition addVertex :: "world \<Rightarrow> vref \<Rightarrow> world" where
  "addVertex w newVertex =
     w\<lparr>vertices := AList.update (vertex_getKey w newVertex) newVertex (vertices w)\<rparr>"

definition getVertexByKey :: "world \<Rightarrow> key \<Rightarrow> vref option" where
  "getVertexByKey w vertexKey = map_of (vertices w) vertexKey"

definition getAllVertices :: "world \<Rightarrow> vref list" where
  "getAllVertices w = map snd (vertices w)"

definition getAllEdges :: "world \<Rightarrow> eref list" where
  "getAllEdges w = map snd (edges w)"


text \<open>
  getVerticesIndices walks the vertices with their positions (forEach in codigo_a, reduce
  in codigo_b) and stores each position under the vertex's key.
\<close>

fun index_vertices :: "world \<Rightarrow> (key \<rightharpoonup> nat) \<Rightarrow> nat \<Rightarrow> vref list \<Rightarrow> (key \<rightharpoonup> nat)" where
  "index_vertices w acc index [] = acc"
| "index_vertices w acc index (v # vs) =
     index_vertices w (acc(vertex_getKey w v \<mapsto> index)) (Suc index) vs"

definition getVerticesIndices :: "world \<Rightarrow> (key \<rightharpoonup> nat)" where
  "getVerticesIndices w = index_vertices w Map.empty 0 (getAllVertices w)"

text \<open>
  \<open>matrix[i][j] = x\<close> for a row \<open>i\<close> that exists. The column is what the index object
  holds for the neighbour's key: when that is \<open>undefined\<close> the assignment creates a
  property named "undefined" on the row and no cell changes; otherwise it is an index of
  getVerticesIndices, which is below the number of vertices (lemma
  \<open>getVerticesIndices_bound\<close>), so the row is never extended.
\<close>

definition set_cell :: "matrix \<Rightarrow> nat \<Rightarrow> nat option \<Rightarrow> cell \<Rightarrow> matrix" where
  "set_cell m i j x = (case j of None \<Rightarrow> m | Some c \<Rightarrow> m[i := (m ! i)[c := x]])"

text \<open>An \<open>n\<close> by \<open>n\<close> matrix.\<close>

definition square :: "nat \<Rightarrow> matrix \<Rightarrow> bool" where
  "square n m \<longleftrightarrow> length m = n \<and> (\<forall>row \<in> set m. length row = n)"


section \<open>codigo_a.js\<close>

definition addEdge_a :: "world \<Rightarrow> eref \<Rightarrow> outcome" where
  "addEdge_a w e =
     (let sv = startVertex (eobj w e);
          ev = endVertex (eobj w e);
          start0 = getVertexByKey w (vertex_getKey w sv);
          end0 = getVertexByKey w (vertex_getKey w ev);
          w1 = (if start0 = None then addVertex w sv else w);
          start1 = (if start0 = None then getVertexByKey w1 (vertex_getKey w1 sv) else start0);
          w2 = (if end0 = None then addVertex w1 ev else w1);
          end1 = (if end0 = None then getVertexByKey w2 (vertex_getKey w2 ev) else end0)
      in if map_of (edges w2) (edge_getKey w2 e) \<noteq> None then Thrown DuplicateEdgeError w2
         else
           let w3 = w2\<lparr>edges := AList.update (edge_getKey w2 e) e (edges w2)\<rparr> in
           (case start1 of
              None \<Rightarrow> Thrown TypeError w3
            | Some s \<Rightarrow>
                if isDirected w3 then Returned (vertex_addEdge w3 s e)
                else (case end1 of
                        None \<Rightarrow> Thrown TypeError (vertex_addEdge w3 s e)
                      | Some t \<Rightarrow> Returned (vertex_addEdge (vertex_addEdge w3 s e) t e))))"

definition deleteEdge_a :: "world \<Rightarrow> eref \<Rightarrow> outcome" where
  "deleteEdge_a w e =
     (if map_of (edges w) (edge_getKey w e) = None then Thrown EdgeNotFoundError w
      else
        let w1 = w\<lparr>edges := AList.delete (edge_getKey w e) (edges w)\<rparr>;
            start0 = getVertexByKey w1 (vertex_getKey w1 (startVertex (eobj w1 e)));
            end0 = getVertexByKey w1 (vertex_getKey w1 (endVertex (eobj w1 e)))
        in (case start0 of
              None \<Rightarrow> Thrown TypeError w1
            | Some s \<Rightarrow>
                (case end0 of
                   None \<Rightarrow> Thrown TypeError (vertex_deleteEdge w1 s e)
                 | Some t \<Rightarrow> Returned (vertex_deleteEdge (vertex_deleteEdge w1 s e) t e))))"

definition findEdge_a :: "world \<Rightarrow> vref \<Rightarrow> vref \<Rightarrow> eref option" where
  "findEdge_a w sv ev =
     (case getVertexByKey w (vertex_getKey w sv) of
        None \<Rightarrow> None
      | Some v \<Rightarrow> vertex_findEdge w v ev)"

text \<open>
  reverse: \<open>this.getAllEdges()\<close> is a fresh array, so the forEach runs over the edges
  registered when reverse was called; \<open>reverse_edge_a\<close> is its callback, and an exception
  ends the loop.
\<close>

definition reverse_edge_a :: "world \<Rightarrow> eref \<Rightarrow> outcome" where
  "reverse_edge_a w e =
     (case deleteEdge_a w e of
        Thrown err w' \<Rightarrow> Thrown err w'
      | Returned w1 \<Rightarrow> addEdge_a (edge_reverse w1 e) e)"

fun reverse_each_a :: "world \<Rightarrow> eref list \<Rightarrow> outcome" where
  "reverse_each_a w [] = Returned w"
| "reverse_each_a w (e # rest) =
     (case reverse_edge_a w e of
        Thrown err w' \<Rightarrow> Thrown err w'
      | Returned w1 \<Rightarrow> reverse_each_a w1 rest)"

definition reverse_a :: "world \<Rightarrow> outcome" where
  "reverse_a w = reverse_each_a w (getAllEdges w)"

text \<open>
  getAdjacencyMatrix. The two nested forEach loops are written over what the collaborator
  answers: \<open>nb v\<close> stands for \<open>v.getNeighbors()\<close> and \<open>fe v n\<close> for
  \<open>this.findEdge(v, n)\<close>. In codigo_a the weight is read off the lookup result
  directly, so a null result raises a TypeError and the matrix under construction is lost.
\<close>

fun fill_row_a ::
  "(vref \<Rightarrow> vref \<Rightarrow> eref option) \<Rightarrow> world \<Rightarrow> nat \<Rightarrow> vref \<Rightarrow> vref list \<Rightarrow> matrix \<Rightarrow> error + matrix"
where
  "fill_row_a fe w vertexIndex v [] m = Inr m"
| "fill_row_a fe w vertexIndex v (n # ns) m =
     (case fe v n of
        None \<Rightarrow> Inl TypeError
      | Some e \<Rightarrow>
          fill_row_a fe w vertexIndex v ns
            (set_cell m vertexIndex (getVerticesIndices w (vertex_getKey w n))
               (Weight (weight (eobj w e)))))"

fun fill_rows_a ::
  "(vref \<Rightarrow> vref list) \<Rightarrow> (vref \<Rightarrow> vref \<Rightarrow> eref option) \<Rightarrow> world \<Rightarrow> (nat \<times> vref) list \<Rightarrow> matrix
     \<Rightarrow> error + matrix"
where
  "fill_rows_a nb fe w [] m = Inr m"
| "fill_rows_a nb fe w ((vertexIndex, v) # rest) m =
     (case fill_row_a fe w vertexIndex v (nb v) m of
        Inl err \<Rightarrow> Inl err
      | Inr m' \<Rightarrow> fill_rows_a nb fe w rest m')"

definition adjacencyMatrix_a ::
  "(vref \<Rightarrow> vref list) \<Rightarrow> (vref \<Rightarrow> vref \<Rightarrow> eref option) \<Rightarrow> world \<Rightarrow> error + matrix"
where
  "adjacencyMatrix_a nb fe w =
     (let vs = getAllVertices w
      in fill_rows_a nb fe w (enumerate 0 vs)
           (replicate (length vs) (replicate (length vs) Infinity)))"

definition getAdjacencyMatrix_a :: "world \<Rightarrow> error + matrix" where
  "getAdjacencyMatrix_a w = adjacencyMatrix_a (vertex_getNeighbors w) (findEdge_a w) w"


section \<open>codigo_b.js\<close>

definition ensureVertexExists :: "world \<Rightarrow> vref \<Rightarrow> world" where
  "ensureVertexExists w v =
     (if getVertexByKey w (vertex_getKey w v) = None then addVertex w v else w)"

definition connectVertices :: "world \<Rightarrow> eref \<Rightarrow> world" where
  "connectVertices w e =
     (let w1 = vertex_addEdge w (startVertex (eobj w e)) e
      in if \<not> isDirected w1 then vertex_addEdge w1 (endVertex (eobj w1 e)) e else w1)"

definition addEdge_b :: "world \<Rightarrow> eref \<Rightarrow> outcome" where
  "addEdge_b w e =
     (if map_of (edges w) (edge_getKey w e) \<noteq> None then Thrown DuplicateEdgeError w
      else
        let w1 = w\<lparr>edges := AList.update (edge_getKey w e) e (edges w)\<rparr>;
            w2 = ensureVertexExists w1 (startVertex (eobj w1 e));
            w3 = ensureVertexExists w2 (endVertex (eobj w2 e))
        in Returned (connectVertices w3 e))"

definition deleteEdge_b :: "world \<Rightarrow> eref \<Rightarrow> outcome" where
  "deleteEdge_b w e =
     (if map_of (edges w) (edge_getKey w e) = None then Thrown EdgeNotFoundError w
      else
        let w1 = w\<lparr>edges := AList.delete (edge_getKey w e) (edges w)\<rparr>;
            w2 = vertex_deleteEdge w1 (startVertex (eobj w1 e)) e
        in Returned (vertex_deleteEdge w2 (endVertex (eobj w2 e)) e))"

text \<open>
  \<open>startVertex?.findEdge(endVertex) || null\<close>: the argument is a GraphVertex, as the
  JSDoc says, so the optional call is the call, on the object passed in.
\<close>

definition findEdge_b :: "world \<Rightarrow> vref \<Rightarrow> vref \<Rightarrow> eref option" where
  "findEdge_b w sv ev = vertex_findEdge w sv ev"

definition reverse_edge_b :: "world \<Rightarrow> eref \<Rightarrow> outcome" where
  "reverse_edge_b w e =
     (case deleteEdge_b w e of
        Thrown err w' \<Rightarrow> Thrown err w'
      | Returned w1 \<Rightarrow> addEdge_b (edge_reverse w1 e) e)"

fun reverse_each_b :: "world \<Rightarrow> eref list \<Rightarrow> outcome" where
  "reverse_each_b w [] = Returned w"
| "reverse_each_b w (e # rest) =
     (case reverse_edge_b w e of
        Thrown err w' \<Rightarrow> Thrown err w'
      | Returned w1 \<Rightarrow> reverse_each_b w1 rest)"

definition reverse_b :: "world \<Rightarrow> outcome" where
  "reverse_b w = reverse_each_b w (getAllEdges w)"

text \<open>
  In codigo_b the weight is \<open>this.findEdge(v, n)?.weight ?? Infinity\<close>, and the row is
  found through the index object too: \<open>matrix[indices[v.getKey()]]\<close>, which would be
  \<open>undefined\<close>, and the assignment a TypeError, if the key had no index.
\<close>

fun fill_row_b ::
  "(vref \<Rightarrow> vref \<Rightarrow> eref option) \<Rightarrow> world \<Rightarrow> vref \<Rightarrow> vref list \<Rightarrow> matrix \<Rightarrow> error + matrix"
where
  "fill_row_b fe w v [] m = Inr m"
| "fill_row_b fe w v (n # ns) m =
     (let x = (case fe v n of None \<Rightarrow> Infinity | Some e \<Rightarrow> Weight (weight (eobj w e)))
      in case getVerticesIndices w (vertex_getKey w v) of
           None \<Rightarrow> Inl TypeError
         | Some i \<Rightarrow>
             fill_row_b fe w v ns (set_cell m i (getVerticesIndices w (vertex_getKey w n)) x))"

fun fill_rows_b ::
  "(vref \<Rightarrow> vref list) \<Rightarrow> (vref \<Rightarrow> vref \<Rightarrow> eref option) \<Rightarrow> world \<Rightarrow> vref list \<Rightarrow> matrix
     \<Rightarrow> error + matrix"
where
  "fill_rows_b nb fe w [] m = Inr m"
| "fill_rows_b nb fe w (v # rest) m =
     (case fill_row_b fe w v (nb v) m of
        Inl err \<Rightarrow> Inl err
      | Inr m' \<Rightarrow> fill_rows_b nb fe w rest m')"

definition adjacencyMatrix_b ::
  "(vref \<Rightarrow> vref list) \<Rightarrow> (vref \<Rightarrow> vref \<Rightarrow> eref option) \<Rightarrow> world \<Rightarrow> error + matrix"
where
  "adjacencyMatrix_b nb fe w =
     (let vs = getAllVertices w
      in fill_rows_b nb fe w vs (replicate (length vs) (replicate (length vs) Infinity)))"

definition getAdjacencyMatrix_b :: "world \<Rightarrow> error + matrix" where
  "getAdjacencyMatrix_b w = adjacencyMatrix_b (vertex_getNeighbors w) (findEdge_b w) w"


section \<open>Invariants and reachable states\<close>

text \<open>
  The vertex registry is a JS object, so its keys are distinct, and addVertex files every
  vertex under its own key. The data-model invariant on the edge registry: every registered
  edge is filed under its own derived key and both its endpoints' keys are registered
  vertices.
\<close>

definition vertices_wf :: "world \<Rightarrow> bool" where
  "vertices_wf w \<longleftrightarrow>
     distinct (map fst (vertices w)) \<and> (\<forall>(k, v) \<in> set (vertices w). vertex_getKey w v = k)"

definition endpoints_registered :: "world \<Rightarrow> bool" where
  "endpoints_registered w \<longleftrightarrow>
     (\<forall>e \<in> set (getAllEdges w).
        getVertexByKey w (vertex_getKey w (startVertex (eobj w e))) \<noteq> None \<and>
        getVertexByKey w (vertex_getKey w (endVertex (eobj w e))) \<noteq> None)"

definition filed_under_own_key :: "world \<Rightarrow> bool" where
  "filed_under_own_key w \<longleftrightarrow> (\<forall>(k, e) \<in> set (edges w). edge_getKey w e = k)"

definition edges_consistent :: "world \<Rightarrow> bool" where
  "edges_consistent w \<longleftrightarrow> filed_under_own_key w \<and> endpoints_registered w"

definition graph_invariant :: "world \<Rightarrow> bool" where
  "graph_invariant w \<longleftrightarrow>
     vertices_wf w \<and> distinct (map fst (edges w)) \<and> edges_consistent w"


text \<open>
  The states a caller can reach from a new graph with the public operations. An operation
  that throws leaves its store behind, and the caller may catch the exception and go on.
\<close>

inductive reachable_a :: "world \<Rightarrow> bool" where
  new_a: "reachable_a (Graph vs es directed)"
| addVertex_a: "reachable_a w \<Longrightarrow> reachable_a (addVertex w v)"
| addEdge_a: "reachable_a w \<Longrightarrow> reachable_a (state_of (addEdge_a w e))"
| deleteEdge_a: "reachable_a w \<Longrightarrow> reachable_a (state_of (deleteEdge_a w e))"
| reverse_a: "reachable_a w \<Longrightarrow> reachable_a (state_of (reverse_a w))"

inductive reachable_b :: "world \<Rightarrow> bool" where
  new_b: "reachable_b (Graph vs es directed)"
| addVertex_b: "reachable_b w \<Longrightarrow> reachable_b (addVertex w v)"
| addEdge_b: "reachable_b w \<Longrightarrow> reachable_b (state_of (addEdge_b w e))"
| deleteEdge_b: "reachable_b w \<Longrightarrow> reachable_b (state_of (deleteEdge_b w e))"
| reverse_b: "reachable_b w \<Longrightarrow> reachable_b (state_of (reverse_b w))"


section \<open>Example objects\<close>

text \<open>
  Vertex objects 0, 1, 2 with keys A, B, C, and a further object 3 that also has key A.
  Edge objects: 0 is A\<rightarrow>B (weight 1), 1 is B\<rightarrow>C (2), 2 is B\<rightarrow>A (5), 3 is a second
  A\<rightarrow>B object (7), 4 goes from vertex object 3 to C (9).
\<close>

definition example_vobj :: "vref \<Rightarrow> vertex" where
  "example_vobj i =
     \<lparr>key = (if i = 0 then ''A'' else if i = 1 then ''B'' else if i = 2 then ''C'' else ''A''),
      adjacency = (if i = 3 then [4] else [])\<rparr>"

definition example_eobj :: "eref \<Rightarrow> edge" where
  "example_eobj i =
     (if i = 0 then \<lparr>startVertex = 0, endVertex = 1, weight = 1\<rparr>
      else if i = 1 then \<lparr>startVertex = 1, endVertex = 2, weight = 2\<rparr>
      else if i = 2 then \<lparr>startVertex = 1, endVertex = 0, weight = 5\<rparr>
      else if i = 3 then \<lparr>startVertex = 0, endVertex = 1, weight = 7\<rparr>
      else \<lparr>startVertex = 3, endVertex = 2, weight = 9\<rparr>)"

definition example_graph :: "bool \<Rightarrow> world" where
  "example_graph directed = Graph example_vobj example_eobj directed"

text \<open>Graphs built from them with addEdge: A\<rightarrow>B alone, then with B\<rightarrow>C, or with B\<rightarrow>A.\<close>

definition example_ab :: "bool \<Rightarrow> world" where
  "example_ab directed = state_of (addEdge_a (example_graph directed) 0)"

definition example_path :: "bool \<Rightarrow> world" where
  "example_path directed = state_of (addEdge_a (example_ab directed) 1)"

definition example_antiparallel :: "bool \<Rightarrow> world" where
  "example_antiparallel directed = state_of (addEdge_a (example_ab directed) 2)"



text \<open>
  Collaborator answers that do not fit together: vertex 0 reports vertex 1 as a neighbour,
  and every edge lookup comes back empty.
\<close>

definition example_neighbors :: "vref \<Rightarrow> vref list" where
  "example_neighbors v = (if v = 0 then [1] else [])"

definition example_lookup :: "vref \<Rightarrow> vref \<Rightarrow> eref option" where
  "example_lookup v n = None"

lemmas example_defs =
  example_path_def example_ab_def example_graph_def Graph_def example_vobj_def example_eobj_def

lemmas operation_defs =
  addEdge_a_def addEdge_b_def deleteEdge_a_def deleteEdge_b_def addVertex_def
  getVertexByKey_def vertex_getKey_def edge_getKey_def vertex_addEdge_def vertex_deleteEdge_def
  ensureVertexExists_def connectVertices_def edge_reverse_def getAllEdges_def getAllVertices_def
  reverse_a_def reverse_b_def reverse_edge_a_def reverse_edge_b_def
  findEdge_a_def findEdge_b_def vertex_findEdge_def vertex_getNeighbors_def

lemmas matrix_defs =
  getAdjacencyMatrix_a_def getAdjacencyMatrix_b_def adjacencyMatrix_a_def adjacencyMatrix_b_def
  getVerticesIndices_def set_cell_def

lemmas invariant_defs =
  edges_consistent_def filed_under_own_key_def endpoints_registered_def vertices_wf_def


section \<open>What each store update leaves alone\<close>

lemma vertex_addEdge_frame [simp]:
  "vertices (vertex_addEdge w v e) = vertices w"
  "edges (vertex_addEdge w v e) = edges w"
  "eobj (vertex_addEdge w v e) = eobj w"
  "isDirected (vertex_addEdge w v e) = isDirected w"
  "vertex_getKey (vertex_addEdge w v e) = vertex_getKey w"
  by (auto simp: vertex_addEdge_def vertex_getKey_def fun_eq_iff)

lemma vertex_deleteEdge_frame [simp]:
  "vertices (vertex_deleteEdge w v e) = vertices w"
  "edges (vertex_deleteEdge w v e) = edges w"
  "eobj (vertex_deleteEdge w v e) = eobj w"
  "isDirected (vertex_deleteEdge w v e) = isDirected w"
  "vertex_getKey (vertex_deleteEdge w v e) = vertex_getKey w"
  by (auto simp: vertex_deleteEdge_def vertex_getKey_def fun_eq_iff)

lemma edge_reverse_frame [simp]:
  "vertices (edge_reverse w e) = vertices w"
  "edges (edge_reverse w e) = edges w"
  "vobj (edge_reverse w e) = vobj w"
  "isDirected (edge_reverse w e) = isDirected w"
  "vertex_getKey (edge_reverse w e) = vertex_getKey w"
  by (auto simp: edge_reverse_def vertex_getKey_def fun_eq_iff)

lemma addVertex_frame [simp]:
  "edges (addVertex w v) = edges w"
  "eobj (addVertex w v) = eobj w"
  "vobj (addVertex w v) = vobj w"
  "isDirected (addVertex w v) = isDirected w"
  "vertex_getKey (addVertex w v) = vertex_getKey w"
  by (auto simp: addVertex_def vertex_getKey_def fun_eq_iff)

lemma edges_update_frame [simp]:
  "vertex_getKey (w\<lparr>edges := es\<rparr>) = vertex_getKey w"
  "getVertexByKey (w\<lparr>edges := es\<rparr>) = getVertexByKey w"
  "edge_getKey (w\<lparr>edges := es\<rparr>) = edge_getKey w"
  by (auto simp: vertex_getKey_def getVertexByKey_def edge_getKey_def fun_eq_iff)

lemma edge_getKey_frame [simp]:
  "edge_getKey (vertex_addEdge w v e) = edge_getKey w"
  "edge_getKey (vertex_deleteEdge w v e) = edge_getKey w"
  "edge_getKey (addVertex w v) = edge_getKey w"
  by (simp_all add: edge_getKey_def fun_eq_iff)

lemma getVertexByKey_frame [simp]:
  "getVertexByKey (vertex_addEdge w v e) = getVertexByKey w"
  "getVertexByKey (vertex_deleteEdge w v e) = getVertexByKey w"
  "getVertexByKey (edge_reverse w e) = getVertexByKey w"
  by (simp_all add: getVertexByKey_def fun_eq_iff)

lemma getVertexByKey_addVertex:
  "getVertexByKey (addVertex w v) k = (if k = vertex_getKey w v then Some v else getVertexByKey w k)"
  by (simp add: getVertexByKey_def addVertex_def update_conv')

lemma ensureVertexExists_frame [simp]:
  "edges (ensureVertexExists w v) = edges w"
  "eobj (ensureVertexExists w v) = eobj w"
  "vobj (ensureVertexExists w v) = vobj w"
  "isDirected (ensureVertexExists w v) = isDirected w"
  "vertex_getKey (ensureVertexExists w v) = vertex_getKey w"
  "edge_getKey (ensureVertexExists w v) = edge_getKey w"
  by (simp_all add: ensureVertexExists_def)

lemma connectVertices_frame [simp]:
  "vertices (connectVertices w e) = vertices w"
  "edges (connectVertices w e) = edges w"
  "eobj (connectVertices w e) = eobj w"
  "isDirected (connectVertices w e) = isDirected w"
  "vertex_getKey (connectVertices w e) = vertex_getKey w"
  "edge_getKey (connectVertices w e) = edge_getKey w"
  "getVertexByKey (connectVertices w e) = getVertexByKey w"
  by (simp_all add: connectVertices_def Let_def)




section \<open>Failing operations\<close>

text \<open>
  C2. For every graph and every edge whose key is not in the edge registry, deleteEdge
  fails with an EdgeNotFoundError and leaves everything as it was: the store carried by the
  thrown outcome is the store before the call, so the vertex registry, the edge registry
  and every adjacency list are unchanged. Both variants.
\<close>

theorem deleteEdge_unregistered_unchanged:
  "map_of (edges w) (edge_getKey w e) = None \<Longrightarrow>
   deleteEdge_a w e = Thrown EdgeNotFoundError w \<and> deleteEdge_b w e = Thrown EdgeNotFoundError w"
  by (simp add: deleteEdge_a_def deleteEdge_b_def)

theorem deleteEdge_unregistered_unchanged_witness:
  "map_of (edges (example_ab True)) (edge_getKey (example_ab True) 1) = None \<and>
   deleteEdge_a (example_ab True) 1 = Thrown EdgeNotFoundError (example_ab True) \<and>
   deleteEdge_b (example_ab True) 1 = Thrown EdgeNotFoundError (example_ab True)"
proof -
  have h: "map_of (edges (example_ab True)) (edge_getKey (example_ab True) 1) = None"
    by (simp add: example_defs operation_defs Let_def)
  show ?thesis
    using h deleteEdge_unregistered_unchanged [OF h] by simp
qed








section \<open>deleteEdge and the vertex registry\<close>

lemma deleteEdge_a_vertices: "vertices (state_of (deleteEdge_a w e)) = vertices w"
  by (simp add: deleteEdge_a_def Let_def split: option.splits)

lemma deleteEdge_b_vertices: "vertices (state_of (deleteEdge_b w e)) = vertices w"
  by (simp add: deleteEdge_b_def Let_def)

text \<open>
  C9. A successful deleteEdge, in either variant, leaves the vertex registry exactly as it
  was: no vertex loses its entry, whether or not the deleted edge was its last one.
\<close>

theorem deleteEdge_keeps_vertices:
  "deleteEdge_a w e = Returned w' \<or> deleteEdge_b w e = Returned w' \<Longrightarrow>
   vertices w' = vertices w \<and> getVertexByKey w' = getVertexByKey w"
proof -
  assume "deleteEdge_a w e = Returned w' \<or> deleteEdge_b w e = Returned w'"
  then have "vertices w' = vertices w"
  proof
    assume "deleteEdge_a w e = Returned w'"
    then show ?thesis using deleteEdge_a_vertices [of w e] by simp
  next
    assume "deleteEdge_b w e = Returned w'"
    then show ?thesis using deleteEdge_b_vertices [of w e] by simp
  qed
  then show ?thesis by (simp add: getVertexByKey_def fun_eq_iff)
qed

theorem deleteEdge_keeps_vertices_witness:
  "deleteEdge_a (example_ab True) 0 = Returned (state_of (deleteEdge_a (example_ab True) 0)) \<and>
   adjacency (vobj (state_of (deleteEdge_a (example_ab True) 0)) 0) = [] \<and>
   vertices (state_of (deleteEdge_a (example_ab True) 0)) = [(''A'', 0), (''B'', 1)] \<and>
   getVertexByKey (state_of (deleteEdge_a (example_ab True) 0)) = getVertexByKey (example_ab True)"
proof -
  have h: "deleteEdge_a (example_ab True) 0 = Returned (state_of (deleteEdge_a (example_ab True) 0))"
    by (simp add: example_defs operation_defs Let_def)
  have v: "vertices (example_ab True) = [(''A'', 0), (''B'', 1)]"
    by (simp add: example_defs operation_defs Let_def)
  have a: "adjacency (vobj (state_of (deleteEdge_a (example_ab True) 0)) 0) = []"
    by (simp add: example_defs operation_defs Let_def)
  show ?thesis
    using h v a deleteEdge_keeps_vertices [OF disjI1 [OF h]] by simp
qed


section \<open>findEdge\<close>





section \<open>getWeight\<close>






lemma deleteEdge_a_Returned:
  assumes "deleteEdge_a w e = Returned w'"
  shows "edges w' = AList.delete (edge_getKey w e) (edges w)" and "eobj w' = eobj w"
  using assms
  by (auto simp: deleteEdge_a_def Let_def split: if_splits option.splits)

lemma deleteEdge_b_Returned:
  assumes "deleteEdge_b w e = Returned w'"
  shows "edges w' = AList.delete (edge_getKey w e) (edges w)" and "eobj w' = eobj w"
  using assms
  by (auto simp: deleteEdge_b_def Let_def split: if_splits option.splits)





section \<open>The invariants hold in every reachable state\<close>


lemma set_update_subset: "set (AList.update k v xs) \<subseteq> insert (k, v) (set xs)"
  by (induction xs) auto

lemma set_delete_subset: "set (AList.delete k xs) \<subseteq> set xs"
  by (auto simp: AList.delete_eq)

lemma edge_reverse_other:
  "e' \<noteq> e \<Longrightarrow> eobj (edge_reverse w e) e' = eobj w e'"
  "e' \<noteq> e \<Longrightarrow> edge_getKey (edge_reverse w e) e' = edge_getKey w e'"
  by (simp_all add: edge_reverse_def edge_getKey_def vertex_getKey_def)

lemma edge_reverse_same:
  "startVertex (eobj (edge_reverse w e) e) = endVertex (eobj w e)"
  "endVertex (eobj (edge_reverse w e) e) = startVertex (eobj w e)"
  "weight (eobj (edge_reverse w e) e') = weight (eobj w e')"
  by (simp_all add: edge_reverse_def)

lemma invariant_frame:
  assumes "graph_invariant w"
    and "vertices w' = vertices w" and "edges w' = edges w" and "eobj w' = eobj w"
    and "vertex_getKey w' = vertex_getKey w"
  shows "graph_invariant w'"
proof -
  have "getVertexByKey w' = getVertexByKey w" "edge_getKey w' = edge_getKey w"
    "getAllEdges w' = getAllEdges w"
    using assms(2-) by (simp_all add: getVertexByKey_def edge_getKey_def getAllEdges_def fun_eq_iff)
  with assms show ?thesis
    by (simp add: graph_invariant_def invariant_defs)
qed

lemma invariant_vertex_addEdge: "graph_invariant w \<Longrightarrow> graph_invariant (vertex_addEdge w v e)"
  by (erule invariant_frame) simp_all

lemma invariant_vertex_deleteEdge:
  "graph_invariant w \<Longrightarrow> graph_invariant (vertex_deleteEdge w v e)"
  by (erule invariant_frame) simp_all

lemma invariant_addVertex:
  assumes "graph_invariant w"
  shows "graph_invariant (addVertex w v)"
proof -
  have "vertices (addVertex w v) = AList.update (vertex_getKey w v) v (vertices w)"
    by (simp add: addVertex_def)
  then have "vertices_wf (addVertex w v)"
    using assms set_update_subset [of "vertex_getKey w v" v "vertices w"]
    by (auto simp: graph_invariant_def vertices_wf_def distinct_update)
  moreover have "filed_under_own_key (addVertex w v)"
    using assms by (simp add: graph_invariant_def invariant_defs)
  moreover have "endpoints_registered (addVertex w v)"
    using assms
    by (auto simp: graph_invariant_def invariant_defs getAllEdges_def getVertexByKey_addVertex)
  ultimately show ?thesis
    using assms by (simp add: graph_invariant_def edges_consistent_def)
qed

lemma invariant_register_edge:
  assumes "graph_invariant w"
    and "getVertexByKey w (vertex_getKey w (startVertex (eobj w e))) \<noteq> None"
    and "getVertexByKey w (vertex_getKey w (endVertex (eobj w e))) \<noteq> None"
  shows "graph_invariant (w\<lparr>edges := AList.update (edge_getKey w e) e (edges w)\<rparr>)"
proof -
  let ?w' = "w\<lparr>edges := AList.update (edge_getKey w e) e (edges w)\<rparr>"
  note sub = set_update_subset [of "edge_getKey w e" e "edges w"]
  have "vertices_wf ?w'"
    using assms(1) by (simp add: graph_invariant_def vertices_wf_def)
  moreover have "distinct (map fst (edges ?w'))"
    using assms(1) by (simp add: graph_invariant_def distinct_update)
  moreover have "filed_under_own_key ?w'"
    using assms(1) sub by (auto simp: graph_invariant_def invariant_defs)
  moreover have "endpoints_registered ?w'"
    unfolding endpoints_registered_def
  proof
    fix x assume "x \<in> set (getAllEdges ?w')"
    then have "x = e \<or> x \<in> set (getAllEdges w)"
      using sub by (auto simp: getAllEdges_def)
    then show "getVertexByKey ?w' (vertex_getKey ?w' (startVertex (eobj ?w' x))) \<noteq> None \<and>
          getVertexByKey ?w' (vertex_getKey ?w' (endVertex (eobj ?w' x))) \<noteq> None"
      using assms by (auto simp: graph_invariant_def invariant_defs)
  qed
  ultimately show ?thesis
    by (simp add: graph_invariant_def edges_consistent_def)
qed

lemma invariant_unregister_edge:
  assumes "graph_invariant w"
  shows "graph_invariant (w\<lparr>edges := AList.delete k (edges w)\<rparr>)"
proof -
  let ?w' = "w\<lparr>edges := AList.delete k (edges w)\<rparr>"
  note sub = set_delete_subset [of k "edges w"]
  have "vertices_wf ?w'"
    using assms(1) by (simp add: graph_invariant_def vertices_wf_def)
  moreover have "distinct (map fst (edges ?w'))"
    using assms(1) by (simp add: graph_invariant_def distinct_delete)
  moreover have "filed_under_own_key ?w'"
    using assms(1) sub by (auto simp: graph_invariant_def invariant_defs)
  moreover have "endpoints_registered ?w'"
    using assms(1) sub by (auto simp: graph_invariant_def invariant_defs getAllEdges_def)
  ultimately show ?thesis
    by (simp add: graph_invariant_def edges_consistent_def)
qed

lemma invariant_edge_reverse:
  assumes "graph_invariant w" and "e \<notin> snd ` set (edges w)"
  shows "graph_invariant (edge_reverse w e)"
proof -
  have other: "x \<noteq> e" if "(k, x) \<in> set (edges w)" for k x
    using that assms(2) by force
  have "vertices_wf (edge_reverse w e)"
    using assms(1) by (simp add: graph_invariant_def vertices_wf_def)
  moreover have "filed_under_own_key (edge_reverse w e)"
    using assms(1) other
    by (auto simp: graph_invariant_def invariant_defs edge_reverse_other)
  moreover have "endpoints_registered (edge_reverse w e)"
    using assms(1) other
    by (auto simp: graph_invariant_def invariant_defs getAllEdges_def edge_reverse_other)
  ultimately show ?thesis
    using assms(1) by (simp add: graph_invariant_def edges_consistent_def)
qed

lemma addVertex_registers:
  "getVertexByKey (addVertex w v) (vertex_getKey w v) = Some v"
  "getVertexByKey w k \<noteq> None \<Longrightarrow> getVertexByKey (addVertex w v) k \<noteq> None"
  by (auto simp: getVertexByKey_addVertex)

lemma invariant_register_edge':
  assumes "graph_invariant w" and "k = edge_getKey w e" and "es = edges w"
    and "getVertexByKey w (vertex_getKey w (startVertex (eobj w e))) \<noteq> None"
    and "getVertexByKey w (vertex_getKey w (endVertex (eobj w e))) \<noteq> None"
  shows "graph_invariant (w\<lparr>edges := AList.update k e es\<rparr>)"
  using invariant_register_edge [OF assms(1,4,5)] assms(2,3) by simp

lemma invariant_addEdge_a:
  assumes "graph_invariant w"
  shows "graph_invariant (state_of (addEdge_a w e))"
  using assms
  by (simp add: addEdge_a_def Let_def invariant_vertex_addEdge invariant_addVertex
      invariant_register_edge' getVertexByKey_addVertex split: option.split)

lemma ensureVertexExists_registers:
  "getVertexByKey (ensureVertexExists w v) (vertex_getKey w v) \<noteq> None"
  "getVertexByKey w k \<noteq> None \<Longrightarrow> getVertexByKey (ensureVertexExists w v) k \<noteq> None"
  "graph_invariant w \<Longrightarrow> graph_invariant (ensureVertexExists w v)"
  by (auto simp: ensureVertexExists_def getVertexByKey_addVertex invariant_addVertex)

lemma invariant_connectVertices:
  "graph_invariant w \<Longrightarrow> graph_invariant (connectVertices w e)"
  by (simp add: connectVertices_def Let_def invariant_vertex_addEdge)

text \<open>
  codigo_b files the edge before it makes sure that the endpoints are registered, so the
  invariant is re-established only at the end of addEdge.
\<close>

lemma invariant_addEdge_b:
  assumes "graph_invariant w"
  shows "graph_invariant (state_of (addEdge_b w e))"
proof (cases "map_of (edges w) (edge_getKey w e) = None")
  case False
  with assms show ?thesis by (simp add: addEdge_b_def)
next
  case True
  define sv where "sv = startVertex (eobj w e)"
  define ev where "ev = endVertex (eobj w e)"
  define w2 where "w2 = ensureVertexExists (ensureVertexExists w sv) ev"
  have i2: "graph_invariant w2"
    using assms by (simp add: w2_def ensureVertexExists_registers)
  have o2: "eobj w2 = eobj w" "vertex_getKey w2 = vertex_getKey w" "edges w2 = edges w"
    "edge_getKey w2 = edge_getKey w"
    by (simp_all add: w2_def)
  have s2: "getVertexByKey w2 (vertex_getKey w sv) \<noteq> None"
    unfolding w2_def
    by (rule ensureVertexExists_registers(2)) (rule ensureVertexExists_registers(1))
  have e2: "getVertexByKey w2 (vertex_getKey w ev) \<noteq> None"
    using ensureVertexExists_registers(1) [of "ensureVertexExists w sv" ev]
    by (simp add: w2_def)
  have i3: "graph_invariant (w2\<lparr>edges := AList.update (edge_getKey w2 e) e (edges w2)\<rparr>)"
    using i2 s2 e2 by (intro invariant_register_edge) (simp_all add: o2 sv_def ev_def)
  have comm: "ensureVertexExists (w\<lparr>edges := es\<rparr>) v = (ensureVertexExists w v)\<lparr>edges := es\<rparr>"
    for w es v
    by (simp add: ensureVertexExists_def addVertex_def)
  have "state_of (addEdge_b w e) =
        connectVertices (w2\<lparr>edges := AList.update (edge_getKey w2 e) e (edges w2)\<rparr>) e"
    using True by (simp add: addEdge_b_def Let_def comm o2 w2_def sv_def ev_def)
  with i3 show ?thesis
    by (simp add: invariant_connectVertices)
qed

lemma invariant_deleteEdge_a:
  assumes "graph_invariant w"
  shows "graph_invariant (state_of (deleteEdge_a w e))"
  using assms
  by (simp add: deleteEdge_a_def Let_def invariant_unregister_edge invariant_vertex_deleteEdge
      split: option.split)

lemma invariant_deleteEdge_b:
  assumes "graph_invariant w"
  shows "graph_invariant (state_of (deleteEdge_b w e))"
  using assms
  by (simp add: deleteEdge_b_def Let_def invariant_unregister_edge invariant_vertex_deleteEdge)

lemma filed_edge_unregistered:
  assumes "graph_invariant w"
  shows "e \<notin> snd ` set (AList.delete (edge_getKey w e) (edges w))"
proof
  assume "e \<in> snd ` set (AList.delete (edge_getKey w e) (edges w))"
  then obtain k where "(k, e) \<in> set (edges w)" and "k \<noteq> edge_getKey w e"
    by (auto simp: AList.delete_eq)
  with assms show False
    by (auto simp: graph_invariant_def invariant_defs)
qed

lemma invariant_reverse_edge_a:
  assumes "graph_invariant w"
  shows "graph_invariant (state_of (reverse_edge_a w e))"
proof (cases "deleteEdge_a w e")
  case (Thrown err w')
  with invariant_deleteEdge_a [OF assms, of e] show ?thesis
    by (simp add: reverse_edge_a_def)
next
  case (Returned w1)
  with invariant_deleteEdge_a [OF assms, of e] have i1: "graph_invariant w1" by simp
  from Returned have "edges w1 = AList.delete (edge_getKey w e) (edges w)"
    by (rule deleteEdge_a_Returned)
  with filed_edge_unregistered [OF assms, of e] have "e \<notin> snd ` set (edges w1)" by simp
  with i1 have "graph_invariant (edge_reverse w1 e)" by (rule invariant_edge_reverse)
  then show ?thesis
    using Returned by (simp add: reverse_edge_a_def invariant_addEdge_a)
qed

lemma invariant_reverse_edge_b:
  assumes "graph_invariant w"
  shows "graph_invariant (state_of (reverse_edge_b w e))"
proof (cases "deleteEdge_b w e")
  case (Thrown err w')
  with invariant_deleteEdge_b [OF assms, of e] show ?thesis
    by (simp add: reverse_edge_b_def)
next
  case (Returned w1)
  with invariant_deleteEdge_b [OF assms, of e] have i1: "graph_invariant w1" by simp
  from Returned have "edges w1 = AList.delete (edge_getKey w e) (edges w)"
    by (rule deleteEdge_b_Returned)
  with filed_edge_unregistered [OF assms, of e] have "e \<notin> snd ` set (edges w1)" by simp
  with i1 have "graph_invariant (edge_reverse w1 e)" by (rule invariant_edge_reverse)
  then show ?thesis
    using Returned by (simp add: reverse_edge_b_def invariant_addEdge_b)
qed

lemma invariant_reverse_each_a:
  "graph_invariant w \<Longrightarrow> graph_invariant (state_of (reverse_each_a w es))"
proof (induction es arbitrary: w)
  case Nil
  then show ?case by simp
next
  case (Cons e es)
  from invariant_reverse_edge_a [OF Cons.prems, of e] show ?case
    by (cases "reverse_edge_a w e") (simp_all add: Cons.IH)
qed

lemma invariant_reverse_each_b:
  "graph_invariant w \<Longrightarrow> graph_invariant (state_of (reverse_each_b w es))"
proof (induction es arbitrary: w)
  case Nil
  then show ?case by simp
next
  case (Cons e es)
  from invariant_reverse_edge_b [OF Cons.prems, of e] show ?case
    by (cases "reverse_edge_b w e") (simp_all add: Cons.IH)
qed

lemma invariant_Graph: "graph_invariant (Graph vs es directed)"
  by (simp add: graph_invariant_def invariant_defs Graph_def getAllEdges_def)

lemma reachable_a_invariant: "reachable_a w \<Longrightarrow> graph_invariant w"
  by (induction rule: reachable_a.induct)
    (simp_all add: invariant_Graph invariant_addVertex invariant_addEdge_a
      invariant_deleteEdge_a reverse_a_def invariant_reverse_each_a)

lemma reachable_b_invariant: "reachable_b w \<Longrightarrow> graph_invariant w"
  by (induction rule: reachable_b.induct)
    (simp_all add: invariant_Graph invariant_addVertex invariant_addEdge_b
      invariant_deleteEdge_b reverse_b_def invariant_reverse_each_b)

text \<open>
  So the hypotheses on the registries that the results of this theory carry hold in every
  state a caller can reach.
\<close>

lemma reachable_registries:
  assumes "reachable_a w \<or> reachable_b w"
  shows "vertices_wf w" and "distinct (map fst (edges w))" and "edges_consistent w"
  using assms reachable_a_invariant reachable_b_invariant
  by (auto simp: graph_invariant_def)











section \<open>reverse\<close>

text \<open>
  On the example scenario of the specification (directed, A\<rightarrow>B and B\<rightarrow>C) reverse does
  what is expected of it: one call flips both edges and files them under the flipped keys,
  a second call restores endpoints, keys and adjacency lists.
\<close>

lemma example_path_reverse:
  "edges (state_of (reverse_a (example_path True))) = [((''B'', ''A''), 0), ((''C'', ''B''), 1)]"
  "edges (state_of (reverse_b (example_path True))) = [((''B'', ''A''), 0), ((''C'', ''B''), 1)]"
  "edges (state_of (reverse_a (state_of (reverse_a (example_path True))))) =
     edges (example_path True)"
  "edges (state_of (reverse_b (state_of (reverse_b (example_path True))))) =
     edges (example_path True)"
  "map (eobj (state_of (reverse_a (state_of (reverse_a (example_path True)))))) [0, 1] =
     map (eobj (example_path True)) [0, 1]"
  "map (eobj (state_of (reverse_b (state_of (reverse_b (example_path True)))))) [0, 1] =
     map (eobj (example_path True)) [0, 1]"
  "map (vobj (state_of (reverse_a (state_of (reverse_a (example_path True)))))) [0, 1, 2] =
     map (vobj (example_path True)) [0, 1, 2]"
  "map (vobj (state_of (reverse_b (state_of (reverse_b (example_path True)))))) [0, 1, 2] =
     map (vobj (example_path True)) [0, 1, 2]"
  by (simp_all add: example_defs operation_defs Let_def)

text \<open>
  C4 fails on the code. In a graph that holds A\<rightarrow>B (edge 0) and B\<rightarrow>A (edge 2), reverse
  deletes edge 0, flips it to B\<rightarrow>A and cannot add it back, because that key belongs to
  edge 2: reverse throws the duplicate-edge error and leaves edge 0 out of the registry and
  out of the adjacency lists. A second reverse then only flips edge 2, so the registry ends
  with one edge instead of the original two. Both variants, directed and undirected.
\<close>

theorem reverse_antiparallel_throws:
  "getAllEdges (example_antiparallel True) = [0, 2] \<and>
   edge_getKey (example_antiparallel True) 0 = (''A'', ''B'') \<and>
   edge_getKey (example_antiparallel True) 2 = (''B'', ''A'') \<and>
   reverse_a (example_antiparallel True) =
     Thrown DuplicateEdgeError (state_of (reverse_a (example_antiparallel True))) \<and>
   edges (state_of (reverse_a (example_antiparallel True))) = [((''B'', ''A''), 2)] \<and>
   reverse_b (example_antiparallel True) =
     Thrown DuplicateEdgeError (state_of (reverse_b (example_antiparallel True))) \<and>
   edges (state_of (reverse_b (example_antiparallel True))) = [((''B'', ''A''), 2)] \<and>
   edges (state_of (reverse_a (state_of (reverse_a (example_antiparallel True))))) =
     [((''A'', ''B''), 2)] \<and>
   edges (state_of (reverse_b (state_of (reverse_b (example_antiparallel True))))) =
     [((''A'', ''B''), 2)] \<and>
   adjacency (vobj (example_antiparallel False) 0) = [0, 2] \<and>
   reverse_a (example_antiparallel False) =
     Thrown DuplicateEdgeError (state_of (reverse_a (example_antiparallel False))) \<and>
   adjacency (vobj (state_of (reverse_a (example_antiparallel False))) 0) = [2] \<and>
   reverse_b (example_antiparallel False) =
     Thrown DuplicateEdgeError (state_of (reverse_b (example_antiparallel False))) \<and>
   adjacency (vobj (state_of (reverse_b (example_antiparallel False))) 0) = [2]"
  by (simp add: example_antiparallel_def example_defs operation_defs Let_def)


section \<open>The adjacency matrix\<close>

subsection \<open>Vertex indices\<close>

lemma index_vertices_other:
  "k \<notin> vertex_getKey w ` set vs \<Longrightarrow> index_vertices w m n vs k = m k"
  by (induction vs arbitrary: m n) auto


lemma index_vertices_defined:
  "k \<in> vertex_getKey w ` set vs \<Longrightarrow> index_vertices w m n vs k \<noteq> None"
proof (induction vs arbitrary: m n)
  case Nil
  then show ?case by simp
next
  case (Cons v vs)
  show ?case
  proof (cases "k \<in> vertex_getKey w ` set vs")
    case True
    then show ?thesis using Cons.IH by simp
  next
    case False
    with Cons.prems have "vertex_getKey w v = k" by auto
    with False show ?thesis by (simp add: index_vertices_other)
  qed
qed



lemma getVerticesIndices_defined:
  "v \<in> set (getAllVertices w) \<Longrightarrow> getVerticesIndices w (vertex_getKey w v) \<noteq> None"
  unfolding getVerticesIndices_def by (rule index_vertices_defined) simp






subsection \<open>Matrix cells\<close>

lemma square_replicate: "square n (replicate n (replicate n x))"
  by (simp add: square_def)

lemma set_cell_square: "square n m \<Longrightarrow> square n (set_cell m i j x)"
proof (cases j)
  case None
  then show "square n m \<Longrightarrow> ?thesis" by (simp add: set_cell_def)
next
  case (Some c)
  assume sq: "square n m"
  show ?thesis
  proof (cases "i < length m")
    case True
    then have "m ! i \<in> set m" by simp
    with sq have "length ((m ! i)[c := x]) = n" by (simp add: square_def)
    with sq set_update_subset_insert [of m i "(m ! i)[c := x]"] show ?thesis
      by (auto simp: square_def set_cell_def Some)
  next
    case False
    then have "m[i := (m ! i)[c := x]] = m" by (simp add: list_update_beyond)
    with sq show ?thesis by (simp add: set_cell_def Some)
  qed
qed




subsection \<open>One row of the matrix, codigo_b\<close>

lemma fill_row_b_total:
  "getVerticesIndices w (vertex_getKey w v) \<noteq> None \<Longrightarrow> \<exists>m'. fill_row_b fe w v ns m = Inr m'"
  by (induction ns arbitrary: m) (auto simp: Let_def)

lemma fill_row_b_square:
  "fill_row_b fe w v ns m = Inr m' \<Longrightarrow> square k m \<Longrightarrow> square k m'"
  by (induction ns arbitrary: m) (auto simp: Let_def set_cell_square split: option.splits)





subsection \<open>All rows, codigo_b\<close>

lemma fill_rows_b_total:
  "\<forall>v \<in> set vs. getVerticesIndices w (vertex_getKey w v) \<noteq> None \<Longrightarrow>
   \<exists>m'. fill_rows_b nb fe w vs m = Inr m'"
proof (induction vs arbitrary: m)
  case Nil
  then show ?case by simp
next
  case (Cons v vs)
  then obtain m1 where "fill_row_b fe w v (nb v) m = Inr m1"
    using fill_row_b_total [of w v fe "nb v" m] by auto
  with Cons show ?case by simp
qed

lemma fill_rows_b_square:
  "fill_rows_b nb fe w vs m = Inr m' \<Longrightarrow> square k m \<Longrightarrow> square k m'"
  by (induction vs arbitrary: m) (auto split: sum.splits dest: fill_row_b_square)






subsection \<open>codigo_a against codigo_b\<close>

lemma fill_row_a_fails:
  "n \<in> set ns \<Longrightarrow> fe v n = None \<Longrightarrow> fill_row_a fe w i v ns m = Inl TypeError"
proof (induction ns arbitrary: m)
  case Nil
  then show ?case by simp
next
  case (Cons a ns)
  then show ?case by (cases "fe v a") auto
qed

lemma fill_row_a_error: "fill_row_a fe w i v ns m = Inl err \<Longrightarrow> err = TypeError"
  by (induction ns arbitrary: m) (auto split: option.splits)

lemma fill_rows_a_fails:
  "(i, v) \<in> set rows \<Longrightarrow> n \<in> set (nb v) \<Longrightarrow> fe v n = None \<Longrightarrow>
   fill_rows_a nb fe w rows m = Inl TypeError"
proof (induction rows arbitrary: m)
  case Nil
  then show ?case by simp
next
  case (Cons row rows)
  obtain i' v' where row: "row = (i', v')" by (cases row)
  show ?case
  proof (cases "fill_row_a fe w i' v' (nb v') m")
    case (Inl err)
    then show ?thesis using fill_row_a_error [OF Inl] by (simp add: row)
  next
    case (Inr m1)
    with Cons.prems have "(i, v) \<in> set rows"
      using fill_row_a_fails [of n "nb v" fe v w i m] by (auto simp: row)
    with Cons.IH Cons.prems(2,3) Inr show ?thesis by (simp add: row)
  qed
qed








subsection \<open>A failed lookup during matrix construction\<close>

lemma adjacencyMatrix_b_total:
  "\<exists>m. adjacencyMatrix_b nb fe w = Inr m \<and> square (length (getAllVertices w)) m"
proof -
  let ?vs = "getAllVertices w"
  let ?m0 = "replicate (length ?vs) (replicate (length ?vs) Infinity)"
  have "\<forall>v \<in> set ?vs. getVerticesIndices w (vertex_getKey w v) \<noteq> None"
    by (simp add: getVerticesIndices_defined)
  then obtain m where m: "fill_rows_b nb fe w ?vs ?m0 = Inr m"
    using fill_rows_b_total by blast
  then have "square (length ?vs) m"
    by (rule fill_rows_b_square) (rule square_replicate)
  with m show ?thesis by (simp add: adjacencyMatrix_b_def Let_def)
qed

lemma set_cell_Infinity:
  "set_cell (replicate k (replicate k Infinity)) i j Infinity = replicate k (replicate k Infinity)"
proof (cases j)
  case None
  then show ?thesis by (simp add: set_cell_def)
next
  case (Some c)
  have row: "(replicate k Infinity)[c := Infinity] = replicate k Infinity"
    by (induction k arbitrary: c) (simp_all split: nat.split)
  show ?thesis
  proof (cases "i < k")
    case True
    then show ?thesis
      by (simp add: set_cell_def Some row list_eq_iff_nth_eq nth_list_update)
  next
    case False
    then show ?thesis by (simp add: set_cell_def Some list_update_beyond)
  qed
qed

lemma fill_row_b_all_fail:
  "\<forall>n \<in> set ns. fe v n = None \<Longrightarrow> getVerticesIndices w (vertex_getKey w v) \<noteq> None \<Longrightarrow>
   fill_row_b fe w v ns (replicate k (replicate k Infinity)) = Inr (replicate k (replicate k Infinity))"
  by (induction ns) (auto simp: Let_def set_cell_Infinity)

lemma fill_rows_b_all_fail:
  "\<forall>v \<in> set vs. getVerticesIndices w (vertex_getKey w v) \<noteq> None \<and> (\<forall>n \<in> set (nb v). fe v n = None) \<Longrightarrow>
   fill_rows_b nb fe w vs (replicate k (replicate k Infinity)) = Inr (replicate k (replicate k Infinity))"
  by (induction vs) (simp_all add: fill_row_b_all_fail)

text \<open>
  C6, as the code has it. When a registered vertex reports a neighbour for which the edge
  lookup gives null, codigo_a reads \<open>.weight\<close> of null: getAdjacencyMatrix fails with a
  TypeError. codigo_b writes \<open>?.weight ?? Infinity\<close>: the failed lookup is absorbed,
  getAdjacencyMatrix always returns a matrix, and when every lookup fails that matrix is
  "infinite" everywhere.
\<close>

theorem failed_lookup_in_matrix:
  "(v \<in> set (getAllVertices w) \<and> n \<in> set (nb v) \<and> fe v n = None \<longrightarrow>
      adjacencyMatrix_a nb fe w = Inl TypeError) \<and>
   (\<exists>m. adjacencyMatrix_b nb fe w = Inr m) \<and>
   ((\<forall>u \<in> set (getAllVertices w). \<forall>x \<in> set (nb u). fe u x = None) \<longrightarrow>
      adjacencyMatrix_b nb fe w =
        Inr (replicate (length (getAllVertices w)) (replicate (length (getAllVertices w)) Infinity)))"
proof (intro conjI impI)
  show "adjacencyMatrix_a nb fe w = Inl TypeError"
    if "v \<in> set (getAllVertices w) \<and> n \<in> set (nb v) \<and> fe v n = None"
  proof -
    from that obtain i where "i < length (getAllVertices w)" and "getAllVertices w ! i = v"
      by (auto simp: in_set_conv_nth)
    then have "(i, v) \<in> set (enumerate 0 (getAllVertices w))"
      by (simp add: in_set_enumerate_eq)
    with that have "fill_rows_a nb fe w (enumerate 0 (getAllVertices w))
        (replicate (length (getAllVertices w)) (replicate (length (getAllVertices w)) Infinity)) =
        Inl TypeError"
      by (intro fill_rows_a_fails [of i v _ n]) simp_all
    then show ?thesis
      by (simp add: adjacencyMatrix_a_def Let_def)
  qed
  show "\<exists>m. adjacencyMatrix_b nb fe w = Inr m"
    using adjacencyMatrix_b_total by blast
  show "adjacencyMatrix_b nb fe w =
      Inr (replicate (length (getAllVertices w)) (replicate (length (getAllVertices w)) Infinity))"
    if "\<forall>u \<in> set (getAllVertices w). \<forall>x \<in> set (nb u). fe u x = None"
    using that
    by (simp add: adjacencyMatrix_b_def Let_def fill_rows_b_all_fail getVerticesIndices_defined)
qed

lemma example_ab_vertices: "getAllVertices (example_ab True) = [0, 1]"
  by (simp add: example_defs operation_defs Let_def)

theorem failed_lookup_in_matrix_witness:
  "0 \<in> set (getAllVertices (example_ab True)) \<and> 1 \<in> set (example_neighbors 0) \<and>
   example_lookup 0 1 = None \<and>
   adjacencyMatrix_a example_neighbors example_lookup (example_ab True) = Inl TypeError \<and>
   adjacencyMatrix_b example_neighbors example_lookup (example_ab True) =
     Inr [[Infinity, Infinity], [Infinity, Infinity]]"
proof -
  have h: "0 \<in> set (getAllVertices (example_ab True)) \<and> 1 \<in> set (example_neighbors 0) \<and>
      example_lookup 0 1 = None"
    by (simp add: example_ab_vertices example_neighbors_def example_lookup_def)
  have f: "\<forall>u \<in> set (getAllVertices (example_ab True)). \<forall>x \<in> set (example_neighbors u).
      example_lookup u x = None"
    by (simp add: example_lookup_def)
  show ?thesis
    using h f failed_lookup_in_matrix [of 0 "example_ab True" 1 example_neighbors example_lookup]
    by (simp add: example_ab_vertices)
qed

text \<open>
  The claim as stated fails for codigo_b: vertex 0 reports neighbour 1, the lookup fails,
  and the operation returns a matrix with the "infinite" default in place.
\<close>

theorem failed_lookup_silent_counterexample:
  "0 \<in> set (getAllVertices (example_ab True)) \<and> 1 \<in> set (example_neighbors 0) \<and>
   example_lookup 0 1 = None \<and>
   adjacencyMatrix_b example_neighbors example_lookup (example_ab True) =
     Inr [[Infinity, Infinity], [Infinity, Infinity]]"
  by (simp add: example_ab_vertices example_neighbors_def example_lookup_def adjacencyMatrix_b_def
      Let_def getVerticesIndices_def set_cell_def vertex_getKey_def example_defs operation_defs)


subsection \<open>The store after a successful addEdge\<close>



lemma vertices_wf_frame [simp]:
  "vertices_wf (vertex_addEdge w v e) = vertices_wf w"
  "vertices_wf (w\<lparr>edges := es\<rparr>) = vertices_wf w"
  by (simp_all add: vertices_wf_def)









subsection \<open>Reading a cell of the finished matrix\<close>













text \<open>The example scenario of the specification, and its undirected counterpart.\<close>

lemma example_path_matrix:
  "getAdjacencyMatrix_a (example_path True) =
     Inr [[Infinity, Weight 1, Infinity], [Infinity, Infinity, Weight 2], [Infinity, Infinity, Infinity]]"
  "getAdjacencyMatrix_a (example_path False) =
     Inr [[Infinity, Weight 1, Infinity], [Weight 1, Infinity, Weight 2], [Infinity, Weight 2, Infinity]]"
  by (simp_all add: example_defs operation_defs matrix_defs Let_def)


end
